theory Spec2Isabelle
  imports Main "HOL-Library.Word" "HOL-Library.Sublist"
begin

section \<open>Machine integers and text formatting\<close>

text \<open>
  Go's \<open>int\<close> is a machine integer; on the 64-bit platforms the services run on it has
  64 bits, addition and subtraction wrap around, and comparisons are signed. The
  balance and every amount are therefore \<open>64 word\<close>, read through \<open>sint\<close>.
\<close>

type_synonym go_int = "64 word"

text \<open>The largest and the smallest value of an \<open>int\<close>.\<close>

definition MaxInt :: int where
  "MaxInt = 2 ^ 63 - 1"

definition MinInt :: int where
  "MinInt = - (2 ^ 63)"

text \<open>The decimal digits, as \<open>allowedChars\<close> in \<open>generateTransactionID\<close> lists them.\<close>

definition allowedChars :: string where
  "allowedChars = ''0123456789''"

text \<open>The verb \<open>%d\<close> of \<open>fmt\<close>: the decimal digits of a number, with a minus sign
  in front of a negative one.\<close>

fun digits_of :: "nat \<Rightarrow> string" where
  "digits_of n =
     (if n < 10 then [allowedChars ! n]
      else digits_of (n div 10) @ [allowedChars ! (n mod 10)])"

declare digits_of.simps [simp del]

definition fmt_int :: "int \<Rightarrow> string" where
  "fmt_int i = (if i < 0 then CHR ''-'' # digits_of (nat (- i)) else digits_of (nat i))"

definition fmt_d :: "go_int \<Rightarrow> string" where
  "fmt_d w = fmt_int (sint w)"

section \<open>The bank (package banking, type Bank)\<close>

text \<open>
  The struct \<open>Bank\<close>: the account's name, its balance, and the map from idempotency
  keys to transaction IDs. The mutex \<open>requestsLock\<close> has no content of its own in a
  sequential model.
\<close>

record bank =
  name :: string
  balance :: go_int
  requests :: "string \<rightharpoonup> string"

text \<open>
  The data file that \<open>GetDataPath\<close> designates, as \<open>load\<close> and \<open>save\<close> see it:
  \<open>os.Stat\<close> fails (\<open>Missing\<close>), \<open>os.Stat\<close> succeeds and \<open>os.ReadFile\<close> fails
  (\<open>Unreadable\<close>), or the file can be read and holds the given bytes.
\<close>

datatype data_file = Missing | Unreadable | Contents string

text \<open>
  What one operation meets in its environment: the raw values behind the successive
  calls of \<open>rand.Intn\<close>, and whether \<open>os.Create\<close> and \<open>file.Write\<close> fail during
  \<open>save\<close>. A failing write is taken to leave the freshly truncated file empty.
\<close>

record env =
  rand_src :: "nat \<Rightarrow> nat"
  create_fails :: bool
  write_fails :: bool

text \<open>
  How a call ends: it returns, the process is terminated by \<open>log.Fatalf\<close>
  (\<open>os.Exit(1)\<close>), or it panics.
\<close>

datatype 'a outcome = Return 'a | Fatal | Panic

text \<open>An \<open>error\<close> built by \<open>fmt.Errorf\<close> is its message; \<open>None\<close> is \<open>nil\<close>.\<close>

type_synonym error = string

text \<open>The errors \<open>load\<close> passes on from \<open>os.ReadFile\<close> and \<open>json.Unmarshal\<close>.\<close>

datatype load_error = ReadFileError | UnmarshalError

type_synonym state = "bank \<times> data_file"

subsection \<open>generateTransactionID\<close>

text \<open>\<open>rand.Intn(n)\<close> returns a value in \<open>[0, n)\<close>, whatever the generator's raw value.\<close>

definition Intn :: "nat \<Rightarrow> nat \<Rightarrow> nat" where
  "Intn raw n = raw mod n"

definition generateTransactionID :: "(nat \<Rightarrow> nat) \<Rightarrow> string \<Rightarrow> nat \<Rightarrow> string" where
  "generateTransactionID rnd pfx len =
     pfx @ map (\<lambda>i. allowedChars ! Intn (rnd i) (length allowedChars)) [0..<len]"

subsection \<open>save\<close>

text \<open>
  \<open>save\<close> terminates the process when \<open>os.Create\<close> fails. Otherwise the file is
  created empty, the results of \<open>file.Write\<close> and \<open>file.Sync\<close> are dropped, and the
  error returned is the one of \<open>os.Create\<close>, which is \<open>nil\<close> at that point.
  \<open>json.MarshalIndent\<close> of an \<open>int\<close> is its decimal text.
\<close>

definition save :: "env \<Rightarrow> bank \<Rightarrow> data_file \<Rightarrow> error option outcome \<times> data_file" where
  "save e b disk =
     (let data = fmt_d (balance b) in
      if create_fails e then (Fatal, disk)
      else (Return None, Contents (if write_fails e then [] else data)))"

subsection \<open>Deposit and Withdraw\<close>

definition Deposit ::
  "env \<Rightarrow> state \<Rightarrow> go_int \<Rightarrow> string \<Rightarrow> (string \<times> error option) outcome \<times> state" where
  "Deposit e s amount idempotencyKey =
     (let b = fst s; disk = snd s in
      if sint amount < 1 then
        (Return ('''', Some (''Invalid amount - '' @ fmt_d amount)), s)
      else
        case (if idempotencyKey \<noteq> '''' then requests b idempotencyKey else None) of
          Some previousTxID \<Rightarrow> (Return (previousTxID, None), s)
        | None \<Rightarrow>
            (let b1 = b\<lparr>balance := balance b + amount\<rparr>;
                 txID = generateTransactionID (rand_src e) ''D'' 10;
                 b2 = b1\<lparr>requests := (requests b1)(idempotencyKey \<mapsto> txID)\<rparr>
             in case save e b2 disk of
                  (Return None, disk') \<Rightarrow> (Return (txID, None), (b2, disk'))
                | (Return (Some err), disk') \<Rightarrow> (Return ('''', Some err), (b2, disk'))
                | (Fatal, disk') \<Rightarrow> (Fatal, (b2, disk'))
                | (Panic, disk') \<Rightarrow> (Panic, (b2, disk'))))"

definition Withdraw ::
  "env \<Rightarrow> state \<Rightarrow> go_int \<Rightarrow> string \<Rightarrow> (string \<times> error option) outcome \<times> state" where
  "Withdraw e s amount idempotencyKey =
     (let b = fst s; disk = snd s in
      if sint amount < 1 then
        (Return ('''', Some (''Invalid amount: '' @ fmt_d amount)), s)
      else if sint amount > sint (balance b) then
        (Return ('''', Some (''insufficient funds: withdrawal amount $'' @ fmt_d amount
                             @ '' exceeds balance $'' @ fmt_d (balance b))), s)
      else
        case (if idempotencyKey \<noteq> '''' then requests b idempotencyKey else None) of
          Some previousTxID \<Rightarrow> (Return (previousTxID, None), s)
        | None \<Rightarrow>
            (let b1 = b\<lparr>balance := balance b - amount\<rparr>;
                 txID = generateTransactionID (rand_src e) ''W'' 10;
                 b2 = b1\<lparr>requests := (requests b1)(idempotencyKey \<mapsto> txID)\<rparr>
             in case save e b2 disk of
                  (Return None, disk') \<Rightarrow> (Return (txID, None), (b2, disk'))
                | (Return (Some err), disk') \<Rightarrow> (Return ('''', Some err), (b2, disk'))
                | (Fatal, disk') \<Rightarrow> (Fatal, (b2, disk'))
                | (Panic, disk') \<Rightarrow> (Panic, (b2, disk'))))"

text \<open>One call of either operation, and a run of calls one after the other (the
  run ends where a call ends the process).\<close>

datatype call = DepositCall go_int string | WithdrawCall go_int string

fun perform :: "env \<Rightarrow> state \<Rightarrow> call \<Rightarrow> (string \<times> error option) outcome \<times> state" where
  "perform e s (DepositCall amount k) = Deposit e s amount k"
| "perform e s (WithdrawCall amount k) = Withdraw e s amount k"

fun key_of :: "call \<Rightarrow> string" where
  "key_of (DepositCall amount k) = k"
| "key_of (WithdrawCall amount k) = k"

fun run_calls :: "(env \<times> call) list \<Rightarrow> state \<Rightarrow> state option" where
  "run_calls [] s = Some s"
| "run_calls ((e, c) # cs) s =
     (case perform e s c of
        (Return r, s') \<Rightarrow> run_calls cs s'
      | (Fatal, s') \<Rightarrow> None
      | (Panic, s') \<Rightarrow> None)"

subsection \<open>load and NewBank\<close>

text \<open>
  \<open>json.Unmarshal\<close> into an \<open>int\<close> that holds \<open>v\<close>: around the value, JSON allows
  blanks, tabs, line feeds and carriage returns; \<open>null\<close> leaves the target as it is; an
  integer literal that fits is stored; anything else (malformed text, another type of
  value, a fraction or an exponent, a number out of range) is an error, \<open>None\<close> here.
\<close>

definition json_space :: "char \<Rightarrow> bool" where
  "json_space c = (c \<in> set [CHR '' '', CHR 0x09, CHR 0x0A, CHR 0x0D])"

definition trim_json :: "string \<Rightarrow> string" where
  "trim_json s = rev (dropWhile json_space (rev (dropWhile json_space s)))"

definition is_digit :: "char \<Rightarrow> bool" where
  "is_digit c = (c \<in> set allowedChars)"

definition digit_val :: "char \<Rightarrow> nat" where
  "digit_val c = length (takeWhile (\<lambda>d. d \<noteq> c) allowedChars)"

definition dec_value :: "string \<Rightarrow> nat" where
  "dec_value ds = foldl (\<lambda>acc c. 10 * acc + digit_val c) 0 ds"

definition json_int_literal :: "string \<Rightarrow> int option" where
  "json_int_literal s =
     (let neg = (s \<noteq> [] \<and> hd s = CHR ''-'');
          ds = (if neg then tl s else s)
      in if ds = [] \<or> \<not> list_all is_digit ds \<or> (1 < length ds \<and> hd ds = CHR ''0'')
         then None
         else Some (if neg then - int (dec_value ds) else int (dec_value ds)))"

definition Unmarshal_int :: "string \<Rightarrow> go_int \<Rightarrow> go_int option" where
  "Unmarshal_int data v =
     (let s = trim_json data in
      if s = ''null'' then Some v
      else case json_int_literal s of
             None \<Rightarrow> None
           | Some i \<Rightarrow> if MinInt \<le> i \<and> i \<le> MaxInt then Some (word_of_int i) else None)"

text \<open>\<open>load\<close> returns a pair as in Go: the balance (or \<open>-1\<close>) and the error (or \<open>nil\<close>).\<close>

definition load :: "bank \<Rightarrow> data_file \<Rightarrow> go_int \<times> load_error option" where
  "load b disk =
     (case disk of
        Missing \<Rightarrow> (0, None)
      | Unreadable \<Rightarrow> (- 1, Some ReadFileError)
      | Contents db \<Rightarrow>
          (case Unmarshal_int db 0 of
             None \<Rightarrow> (- 1, Some UnmarshalError)
           | Some v \<Rightarrow> (v, None)))"

text \<open>\<open>NewBank\<close> logs the error of \<open>load\<close>, if any, and goes on.\<close>

definition NewBank :: "string \<Rightarrow> data_file \<Rightarrow> bank" where
  "NewBank nm disk =
     (let b = \<lparr>name = nm, balance = 0, requests = Map.empty\<rparr>;
          (previousBalance, err) = load b disk
      in b\<lparr>balance := previousBalance\<rparr>)"

section \<open>The service and the client (BankingService and BankClient)\<close>

text \<open>\<open>strings.Contains\<close>.\<close>

fun Contains :: "string \<Rightarrow> string \<Rightarrow> bool" where
  "Contains [] substr = (substr = [])"
| "Contains (c # cs) substr = (prefix substr (c # cs) \<or> Contains cs substr)"

text \<open>
  The two regular expressions of the code, \<open>:\s(.*)\<close> and \<open>INSUFFICIENT_FUNDS:\s(.*)\<close>,
  are a literal, one white-space character (\<open>\s\<close> is tab, line feed, form feed, carriage
  return or blank) and a group that takes the rest of the line (\<open>.\<close> does not match a
  line feed). \<open>FindStringSubmatch\<close> takes the leftmost match; \<open>find_submatch\<close> is its
  element 1, and \<open>None\<close> where there is no match, so that indexing the result panics.
\<close>

definition regexp_space :: "char \<Rightarrow> bool" where
  "regexp_space c = (c \<in> set [CHR 0x09, CHR 0x0A, CHR 0x0C, CHR 0x0D, CHR '' ''])"

fun find_submatch :: "string \<Rightarrow> string \<Rightarrow> string option" where
  "find_submatch lit [] = None"
| "find_submatch lit (c # cs) =
     (if prefix lit (c # cs) \<and>
         (case drop (length lit) (c # cs) of [] \<Rightarrow> False | d # rest \<Rightarrow> regexp_space d)
      then Some (takeWhile (\<lambda>x. x \<noteq> CHR 0x0A) (drop (Suc (length lit)) (c # cs)))
      else find_submatch lit cs)"

text \<open>\<open>strconv.Atoi\<close>: an optional sign and decimal digits, within the range of \<open>int\<close>.\<close>

definition Atoi :: "string \<Rightarrow> go_int option" where
  "Atoi s =
     (case s of
        [] \<Rightarrow> None
      | c # cs \<Rightarrow>
          (let ds = (if c = CHR ''-'' \<or> c = CHR ''+'' then cs else s);
               v = (if c = CHR ''-'' then - int (dec_value ds) else int (dec_value ds))
           in if ds = [] \<or> \<not> list_all is_digit ds then None
              else if MinInt \<le> v \<and> v \<le> MaxInt then Some (word_of_int v) else None))"

text \<open>A request's query parameters (the first value of each, if present) and a response.
  \<open>http.Error\<close> writes the message and a line feed.\<close>

record request =
  amount_param :: "string option"
  key_param :: "string option"

record response =
  status :: nat
  body :: string

definition http_Error :: "string \<Rightarrow> nat \<Rightarrow> response" where
  "http_Error message code = \<lparr>status = code, body = message @ [CHR 0x0A]\<rparr>"

definition withdrawHandler :: "env \<Rightarrow> state \<Rightarrow> request \<Rightarrow> response outcome \<times> state" where
  "withdrawHandler e s r =
     (case amount_param r of
        None \<Rightarrow> (Return (http_Error ''ERROR: MISSING_AMOUNT_PARAM'' 400), s)
      | Some a \<Rightarrow>
          (case Atoi a of
             None \<Rightarrow> (Return (http_Error ''ERROR: INVALID_AMOUNT'' 400), s)
           | Some amount \<Rightarrow>
               if sint amount < 1 then (Return (http_Error ''ERROR: INVALID_AMOUNT'' 400), s)
               else
                 (let idempotencyKey = (case key_param r of None \<Rightarrow> '''' | Some k \<Rightarrow> k)
                  in case Withdraw e s amount idempotencyKey of
                       (Return (txID, Some err), s') \<Rightarrow>
                         (if Contains err ''insufficient funds:'' then
                            (case find_submatch '':'' err of
                               None \<Rightarrow> (Panic, s')
                             | Some detail \<Rightarrow>
                                 (Return (http_Error (''ERROR: INSUFFICIENT_FUNDS: '' @ detail) 400), s'))
                          else (Return (http_Error (''ERROR: WITHDRAW_FAIL: '' @ err) 400), s'))
                     | (Return (txID, None), s') \<Rightarrow>
                         (Return \<lparr>status = 200,
                                  body = ''SUCCESS: WITHDRAW_COMPLETE: transaction-id='' @ txID\<rparr>, s')
                     | (Fatal, s') \<Rightarrow> (Fatal, s')
                     | (Panic, s') \<Rightarrow> (Panic, s'))))"

text \<open>What \<open>http.Get\<close> and \<open>io.ReadAll\<close> give the client: an error, or a status and a body.\<close>

datatype http_reply = NoReply | Reply nat string

datatype client_error = TransportError | InsufficientFundsError string | HTTPError string

definition callService :: "http_reply \<Rightarrow> (string \<times> client_error option) outcome" where
  "callService r =
     (case r of
        NoReply \<Rightarrow> Return ('''', Some TransportError)
      | Reply st content \<Rightarrow>
          if st \<ge> 400 then
            (if Contains content ''INSUFFICIENT_FUNDS'' then
               (case find_submatch ''INSUFFICIENT_FUNDS:'' content of
                  None \<Rightarrow> Panic
                | Some m \<Rightarrow> Return ('''', Some (InsufficientFundsError m)))
             else Return ('''', Some (HTTPError (''HTTP Error '' @ fmt_int (int st) @ '': '' @ content))))
          else Return (content, None))"

section \<open>Vocabulary of the properties\<close>

text \<open>A transaction ID of the expected shape: the letter of its operation and 10
  decimal digits.\<close>

definition txid_format :: "char \<Rightarrow> string \<Rightarrow> bool" where
  "txid_format c t =
     (case t of [] \<Rightarrow> False | x # ds \<Rightarrow> x = c \<and> length ds = 10 \<and> list_all is_digit ds)"

text \<open>Environments and states for the concrete runs below: one in which every file
  operation succeeds, one in which \<open>os.Create\<close> fails, one in which \<open>file.Write\<close>
  fails; the bank of the README's walk-through, freshly constructed with no data file,
  and the same bank constructed from a data file that holds the largest \<open>int\<close>.\<close>

definition env_ok :: env where
  "env_ok = \<lparr>rand_src = (\<lambda>i. 7 * i + 3), create_fails = False, write_fails = False\<rparr>"

definition env_create_fails :: env where
  "env_create_fails = env_ok\<lparr>create_fails := True\<rparr>"

definition env_write_fails :: env where
  "env_write_fails = env_ok\<lparr>write_fails := True\<rparr>"

definition fresh :: state where
  "fresh = (NewBank ''Tom'' Missing, Missing)"

definition full :: state where
  "full = (\<lparr>name = ''Tom'', balance = 9223372036854775807, requests = Map.empty\<rparr>,
           Contents ''9223372036854775807'')"

text \<open>The fresh bank after \<open>Deposit(5000, "k1")\<close>, and that state after a further
  \<open>Withdraw(100, "")\<close>, both in \<open>env_ok\<close>.\<close>

definition after_k1 :: state where
  "after_k1 = (\<lparr>name = ''Tom'', balance = 5000, requests = [''k1'' \<mapsto> ''D3074185296'']\<rparr>,
               Contents ''5000'')"

definition later :: state where
  "later = (\<lparr>name = ''Tom'', balance = 4900,
             requests = [''k1'' \<mapsto> ''D3074185296'', '''' \<mapsto> ''W3074185296'']\<rparr>,
            Contents ''4900'')"

text \<open>The README's walk-through: the fresh bank after \<open>Deposit(1100, "")\<close>, and
  after the \<open>Withdraw(100, "")\<close> that follows.\<close>

definition funded :: state where
  "funded = (\<lparr>name = ''Tom'', balance = 1100, requests = ['''' \<mapsto> ''D3074185296'']\<rparr>,
             Contents ''1100'')"

definition spent :: state where
  "spent = (\<lparr>name = ''Tom'', balance = 1000, requests = ['''' \<mapsto> ''W3074185296'']\<rparr>,
            Contents ''1000'')"

section \<open>Basic facts\<close>

lemma allowed_nth: "i < 10 \<Longrightarrow> allowedChars ! i \<in> set allowedChars"
  by (rule nth_mem) (simp add: allowedChars_def)

lemma sint_add_exact:
  fixes a b :: go_int
  assumes "MinInt \<le> sint a + sint b" "sint a + sint b \<le> MaxInt"
  shows "sint (a + b) = sint a + sint b"
proof -
  have "sint (a + b) = signed_take_bit 63 (sint a + sint b)"
    by (simp add: sint_word_ariths)
  also have "\<dots> = sint a + sint b"
    using assms by (intro signed_take_bit_int_eq_self) (simp_all add: MinInt_def MaxInt_def)
  finally show ?thesis .
qed

lemma sint_sub_exact:
  fixes a b :: go_int
  assumes "MinInt \<le> sint a - sint b" "sint a - sint b \<le> MaxInt"
  shows "sint (a - b) = sint a - sint b"
proof -
  have "sint (a - b) = signed_take_bit 63 (sint a - sint b)"
    by (simp add: sint_word_ariths)
  also have "\<dots> = sint a - sint b"
    using assms by (intro signed_take_bit_int_eq_self) (simp_all add: MinInt_def MaxInt_def)
  finally show ?thesis .
qed

lemma sint_bounds: "MinInt \<le> sint (w :: go_int)" "sint (w :: go_int) \<le> MaxInt"
  using sint_ge [of w] sint_lt [of w] by (simp_all add: MinInt_def MaxInt_def)

lemma txid_format_generate: "txid_format c (generateTransactionID rnd [c] 10)"
proof -
  have len: "length allowedChars = 10"
    by (simp add: allowedChars_def)
  have "allowedChars ! Intn (rnd i) (length allowedChars) \<in> set allowedChars" for i
    by (rule nth_mem) (simp add: Intn_def len)
  then have "list_all is_digit (map (\<lambda>i. allowedChars ! Intn (rnd i) (length allowedChars)) [0..<10])"
    by (simp add: list_all_iff is_digit_def)
  then show ?thesis
    by (simp add: txid_format_def generateTransactionID_def)
qed

text \<open>The outcomes of Deposit, branch by branch.\<close>

lemma Deposit_new:
  assumes "1 \<le> sint amount" and "k = '''' \<or> requests (fst s) k = None"
  shows "Deposit e s amount k =
    (let b2 = (fst s)\<lparr>balance := balance (fst s) + amount,
                      requests := (requests (fst s))(k \<mapsto> generateTransactionID (rand_src e) ''D'' 10)\<rparr>
     in if create_fails e then (Fatal, (b2, snd s))
        else (Return (generateTransactionID (rand_src e) ''D'' 10, None),
              (b2, Contents (if write_fails e then [] else fmt_d (balance b2)))))"
  using assms by (auto simp: Deposit_def save_def Let_def)

lemma Withdraw_new:
  assumes "1 \<le> sint amount" and "sint amount \<le> sint (balance (fst s))"
    and "k = '''' \<or> requests (fst s) k = None"
  shows "Withdraw e s amount k =
    (let b2 = (fst s)\<lparr>balance := balance (fst s) - amount,
                      requests := (requests (fst s))(k \<mapsto> generateTransactionID (rand_src e) ''W'' 10)\<rparr>
     in if create_fails e then (Fatal, (b2, snd s))
        else (Return (generateTransactionID (rand_src e) ''W'' 10, None),
              (b2, Contents (if write_fails e then [] else fmt_d (balance b2)))))"
  using assms by (auto simp: Withdraw_def save_def Let_def)

lemma Deposit_cached:
  assumes "1 \<le> sint amount" and "k \<noteq> ''''" and "requests (fst s) k = Some t"
  shows "Deposit e s amount k = (Return (t, None), s)"
  using assms by (simp add: Deposit_def)

lemma Withdraw_cached:
  assumes "1 \<le> sint amount" and "sint amount \<le> sint (balance (fst s))"
    and "k \<noteq> ''''" and "requests (fst s) k = Some t"
  shows "Withdraw e s amount k = (Return (t, None), s)"
  using assms by (simp add: Withdraw_def)

lemma Deposit_invalid:
  assumes "sint amount < 1"
  shows "Deposit e s amount k = (Return ('''', Some (''Invalid amount - '' @ fmt_d amount)), s)"
  using assms by (simp add: Deposit_def)

lemma Withdraw_invalid:
  assumes "sint amount < 1"
  shows "Withdraw e s amount k = (Return ('''', Some (''Invalid amount: '' @ fmt_d amount)), s)"
  using assms by (simp add: Withdraw_def)

lemma Withdraw_insufficient:
  assumes "1 \<le> sint amount" and "sint (balance (fst s)) < sint amount"
  shows "Withdraw e s amount k =
           (Return ('''', Some (''insufficient funds: withdrawal amount $'' @ fmt_d amount
                                @ '' exceeds balance $'' @ fmt_d (balance (fst s)))), s)"
  using assms by (simp add: Withdraw_def)

lemma Deposit_keeps_entry:
  assumes "k \<noteq> ''''" and "requests (fst s) k = Some t"
  shows "requests (fst (snd (Deposit e s amount k'))) k = Some t"
proof (cases "sint amount < 1")
  case True
  then show ?thesis using assms by (simp add: Deposit_invalid)
next
  case False
  then have a: "1 \<le> sint amount" by simp
  show ?thesis
  proof (cases "k' = '''' \<or> requests (fst s) k' = None")
    case True
    then have "k' \<noteq> k" using assms by auto
    then show ?thesis using assms by (simp add: Deposit_new [OF a True] Let_def)
  next
    case False
    then obtain t' where "k' \<noteq> ''''" "requests (fst s) k' = Some t'" by auto
    then show ?thesis using assms by (simp add: Deposit_cached [OF a])
  qed
qed

lemma Withdraw_keeps_entry:
  assumes "k \<noteq> ''''" and "requests (fst s) k = Some t"
  shows "requests (fst (snd (Withdraw e s amount k'))) k = Some t"
proof (cases "sint amount < 1")
  case True
  then show ?thesis using assms by (simp add: Withdraw_invalid)
next
  case False
  then have a: "1 \<le> sint amount" by simp
  show ?thesis
  proof (cases "sint (balance (fst s)) < sint amount")
    case True
    then show ?thesis using assms by (simp add: Withdraw_insufficient [OF a])
  next
    case False
    then have le: "sint amount \<le> sint (balance (fst s))" by simp
    show ?thesis
    proof (cases "k' = '''' \<or> requests (fst s) k' = None")
      case True
      then have "k' \<noteq> k" using assms by auto
      then show ?thesis using assms by (simp add: Withdraw_new [OF a le True] Let_def)
    next
      case False
      then obtain t' where "k' \<noteq> ''''" "requests (fst s) k' = Some t'" by auto
      then show ?thesis using assms by (simp add: Withdraw_cached [OF a le])
    qed
  qed
qed

lemma perform_keeps_entry:
  assumes "k \<noteq> ''''" and "requests (fst s) k = Some t"
  shows "requests (fst (snd (perform e s c))) k = Some t"
  using assms by (cases c) (simp_all add: Deposit_keeps_entry Withdraw_keeps_entry)

lemma run_calls_keeps_entry:
  assumes "k \<noteq> ''''"
  shows "requests (fst s) k = Some t \<Longrightarrow> run_calls cs s = Some s' \<Longrightarrow> requests (fst s') k = Some t"
proof (induction cs arbitrary: s)
  case Nil
  then show ?case by simp
next
  case (Cons ec cs)
  obtain e c where ec: "ec = (e, c)" by (cases ec)
  obtain r s1 where p: "perform e s c = (r, s1)" by (cases "perform e s c")
  from Cons.prems(2) ec p obtain v where "r = Return v" and run: "run_calls cs s1 = Some s'"
    by (cases r) simp_all
  have "requests (fst s1) k = Some t"
    using perform_keeps_entry [OF assms Cons.prems(1), of e c] p by simp
  then show ?case using Cons.IH run by blast
qed

lemma Deposit_success_records:
  assumes "k \<noteq> ''''" and "Deposit e s amount k = (Return (t, None), s')"
  shows "requests (fst s') k = Some t"
proof (cases "sint amount < 1")
  case True
  then show ?thesis using assms by (simp add: Deposit_invalid)
next
  case False
  then have a: "1 \<le> sint amount" by simp
  show ?thesis
  proof (cases "requests (fst s) k")
    case None
    then show ?thesis using assms Deposit_new [OF a, of k s e]
      by (auto simp: Let_def split: if_splits)
  next
    case (Some t')
    then show ?thesis using assms Deposit_cached [OF a assms(1) Some, of e] by auto
  qed
qed

lemma Withdraw_success_records:
  assumes "k \<noteq> ''''" and "Withdraw e s amount k = (Return (t, None), s')"
  shows "requests (fst s') k = Some t"
proof (cases "sint amount < 1")
  case True
  then show ?thesis using assms by (simp add: Withdraw_invalid)
next
  case False
  then have a: "1 \<le> sint amount" by simp
  show ?thesis
  proof (cases "sint (balance (fst s)) < sint amount")
    case True
    then show ?thesis using assms by (simp add: Withdraw_insufficient [OF a])
  next
    case False
    then have le: "sint amount \<le> sint (balance (fst s))" by simp
    show ?thesis
    proof (cases "requests (fst s) k")
      case None
      then show ?thesis using assms Withdraw_new [OF a le, of k e]
        by (auto simp: Let_def split: if_splits)
    next
      case (Some t')
      then show ?thesis using assms Withdraw_cached [OF a le assms(1) Some, of e] by auto
    qed
  qed
qed

lemma perform_success_records:
  assumes "key_of c \<noteq> ''''" and "perform e s c = (Return (t, None), s')"
  shows "requests (fst s') (key_of c) = Some t"
  using assms by (cases c) (auto dest: Deposit_success_records Withdraw_success_records)

lemma NewBank_no_file: "NewBank nm Missing = \<lparr>name = nm, balance = 0, requests = Map.empty\<rparr>"
  by (simp add: NewBank_def load_def)

lemma NewBank_parsed:
  "Unmarshal_int db 0 = Some v \<Longrightarrow>
   NewBank nm (Contents db) = \<lparr>name = nm, balance = v, requests = Map.empty\<rparr>"
  by (simp add: NewBank_def load_def)

lemma NewBank_load_error:
  "disk = Unreadable \<or> (\<exists>db. disk = Contents db \<and> Unmarshal_int db 0 = None) \<Longrightarrow>
   NewBank nm disk = \<lparr>name = nm, balance = - 1, requests = Map.empty\<rparr>"
  by (auto simp: NewBank_def load_def)

lemma sint_word_of_int_exact:
  assumes "MinInt \<le> i" and "i \<le> MaxInt"
  shows "sint (word_of_int i :: go_int) = i"
proof -
  have "sint (word_of_int i :: go_int) = signed_take_bit 63 i"
    by (simp add: sint_sbintrunc')
  also have "\<dots> = i"
    using assms by (intro signed_take_bit_int_eq_self) (simp_all add: MinInt_def MaxInt_def)
  finally show ?thesis .
qed

lemma json_int_literal_not_null:
  assumes "json_int_literal s = Some i"
  shows "s \<noteq> ''null''"
proof
  assume "s = ''null''"
  then have "json_int_literal s = None"
    by (simp add: json_int_literal_def is_digit_def allowedChars_def)
  with assms show False by simp
qed

lemma Unmarshal_int_literal:
  assumes "json_int_literal (trim_json db) = Some i"
  shows "Unmarshal_int db v = (if MinInt \<le> i \<and> i \<le> MaxInt then Some (word_of_int i) else None)"
  using assms json_int_literal_not_null [OF assms]
  by (simp add: Unmarshal_int_def)

lemma NewBank_json_integer:
  assumes "json_int_literal (trim_json db) = Some i" and "MinInt \<le> i" and "i \<le> MaxInt"
  shows "NewBank nm (Contents db) = \<lparr>name = nm, balance = word_of_int i, requests = Map.empty\<rparr>"
  using assms(2,3) by (simp add: NewBank_parsed Unmarshal_int_literal [OF assms(1)])

text \<open>An integer beyond the range of \<open>int\<close> is an error of \<open>json.Unmarshal\<close>, so the
  file is treated like one that cannot be loaded.\<close>

lemma NewBank_integer_out_of_range:
  assumes "json_int_literal (trim_json db) = Some i" and "i < MinInt \<or> MaxInt < i"
  shows "NewBank nm (Contents db) = \<lparr>name = nm, balance = - 1, requests = Map.empty\<rparr>"
proof -
  have "Unmarshal_int db 0 = None"
    using assms(2) by (auto simp: Unmarshal_int_literal [OF assms(1)])
  then show ?thesis
    by (intro NewBank_load_error) simp
qed

lemma Withdraw_balance:
  "balance (fst (snd (Withdraw e s amount k))) =
     (if 1 \<le> sint amount \<and> sint amount \<le> sint (balance (fst s))
         \<and> (k = '''' \<or> requests (fst s) k = None)
      then balance (fst s) - amount else balance (fst s))"
proof (cases "sint amount < 1")
  case True
  then show ?thesis by (simp add: Withdraw_invalid)
next
  case False
  then have a: "1 \<le> sint amount" by simp
  show ?thesis
  proof (cases "sint (balance (fst s)) < sint amount")
    case True
    then show ?thesis using a by (simp add: Withdraw_insufficient)
  next
    case False
    then have le: "sint amount \<le> sint (balance (fst s))" by simp
    show ?thesis
    proof (cases "k = '''' \<or> requests (fst s) k = None")
      case True
      then show ?thesis using a le by (simp add: Withdraw_new [OF a le True] Let_def)
    next
      case False
      then obtain t where "k \<noteq> ''''" "requests (fst s) k = Some t" by auto
      then show ?thesis using a le by (simp add: Withdraw_cached)
    qed
  qed
qed

lemma Deposit_balance:
  "balance (fst (snd (Deposit e s amount k))) =
     (if 1 \<le> sint amount \<and> (k = '''' \<or> requests (fst s) k = None)
      then balance (fst s) + amount else balance (fst s))"
proof (cases "sint amount < 1")
  case True
  then show ?thesis by (simp add: Deposit_invalid)
next
  case False
  then have a: "1 \<le> sint amount" by simp
  show ?thesis
  proof (cases "k = '''' \<or> requests (fst s) k = None")
    case True
    then show ?thesis using a by (simp add: Deposit_new [OF a True] Let_def)
  next
    case False
    then obtain t where "k \<noteq> ''''" "requests (fst s) k = Some t" by auto
    then show ?thesis using a by (simp add: Deposit_cached)
  qed
qed

lemma Deposit_error_is_invalid_amount:
  assumes "Deposit e s amount k = (Return (t, Some err), s')"
  shows "sint amount < 1 \<and> err = ''Invalid amount - '' @ fmt_d amount"
proof (cases "sint amount < 1")
  case True
  then show ?thesis using assms by (simp add: Deposit_invalid)
next
  case False
  then have a: "1 \<le> sint amount" by simp
  show ?thesis
  proof (cases "k = '''' \<or> requests (fst s) k = None")
    case True
    then show ?thesis using assms by (simp add: Deposit_new [OF a True] Let_def split: if_splits)
  next
    case False
    then obtain t' where "k \<noteq> ''''" "requests (fst s) k = Some t'" by auto
    then show ?thesis using assms a by (simp add: Deposit_cached)
  qed
qed

lemma Withdraw_error_is_validation:
  assumes "Withdraw e s amount k = (Return (t, Some err), s')"
  shows "sint amount < 1 \<or> sint (balance (fst s)) < sint amount"
proof (rule ccontr)
  assume "\<not> (sint amount < 1 \<or> sint (balance (fst s)) < sint amount)"
  then have a: "1 \<le> sint amount" and le: "sint amount \<le> sint (balance (fst s))" by simp_all
  show False
  proof (cases "k = '''' \<or> requests (fst s) k = None")
    case True
    then show ?thesis using assms by (simp add: Withdraw_new [OF a le True] Let_def split: if_splits)
  next
    case False
    then obtain t' where "k \<noteq> ''''" "requests (fst s) k = Some t'" by auto
    then show ?thesis using assms a le by (simp add: Withdraw_cached)
  qed
qed

lemma save_returns_no_error: "fst (save e b disk) \<noteq> Return (Some err)"
  by (simp add: save_def)

lemma digits_of_set: "set (digits_of n) \<subseteq> set allowedChars"
proof (induction n rule: digits_of.induct)
  case (1 n)
  show ?case
  proof (cases "n < 10")
    case True
    then show ?thesis using allowed_nth [of n] by (subst digits_of.simps) simp
  next
    case False
    have "n mod 10 < 10" by simp
    then have "allowedChars ! (n mod 10) \<in> set allowedChars" by (rule allowed_nth)
    with False 1 show ?thesis by (subst digits_of.simps) simp
  qed
qed

lemma fmt_d_one_line: "CHR 0x0A \<notin> set (fmt_d w)"
proof -
  have "CHR 0x0A \<notin> set allowedChars"
    by (simp add: allowedChars_def)
  then have "CHR 0x0A \<notin> set (digits_of n)" for n
    using digits_of_set [of n] by blast
  then show ?thesis
    by (simp add: fmt_d_def fmt_int_def)
qed

lemma line_whole:
  "CHR 0x0A \<notin> set d \<Longrightarrow> takeWhile (\<lambda>x. x \<noteq> CHR 0x0A) d = d"
  by (induction d) auto

lemma line_upto_feed:
  "CHR 0x0A \<notin> set d \<Longrightarrow> takeWhile (\<lambda>x. x \<noteq> CHR 0x0A) (d @ CHR 0x0A # r) = d"
  by (induction d) auto

lemma service_contains: "Contains (''insufficient funds: '' @ d) ''insufficient funds:''"
  by simp

lemma service_submatch:
  assumes "CHR 0x0A \<notin> set d"
  shows "find_submatch '':'' (''insufficient funds: '' @ d) = Some d"
  using line_whole [OF assms] by (simp add: regexp_space_def)

lemma client_contains:
  "Contains (''ERROR: INSUFFICIENT_FUNDS: '' @ d) ''INSUFFICIENT_FUNDS''"
  "Contains (''ERROR: INSUFFICIENT_FUNDS: '' @ d) ''INSUFFICIENT_FUNDS:''"
  by simp_all

lemma client_submatch:
  assumes "CHR 0x0A \<notin> set d"
  shows "find_submatch ''INSUFFICIENT_FUNDS:'' (''ERROR: INSUFFICIENT_FUNDS: '' @ d @ [CHR 0x0A]) = Some d"
  using line_upto_feed [OF assms, of "[]"] by (simp add: regexp_space_def)

lemma callService_insufficient:
  assumes "CHR 0x0A \<notin> set d"
  shows "callService (Reply 400 (''ERROR: INSUFFICIENT_FUNDS: '' @ d @ [CHR 0x0A]))
         = Return ('''', Some (InsufficientFundsError d))"
  unfolding callService_def
  using client_contains(1) [of "d @ [CHR 0x0A]"] client_submatch [OF assms]
  by simp

text \<open>The concrete runs used below.\<close>

lemma fresh_eq: "fresh = (\<lparr>name = ''Tom'', balance = 0, requests = Map.empty\<rparr>, Missing)"
  by (simp add: fresh_def NewBank_def load_def)

lemma gen_ok_D: "generateTransactionID (rand_src env_ok) ''D'' 10 = ''D3074185296''"
  by code_simp

lemma gen_ok_W: "generateTransactionID (rand_src env_ok) ''W'' 10 = ''W3074185296''"
  by code_simp

lemma env_flags:
  "\<not> create_fails env_ok" "\<not> write_fails env_ok"
  "create_fails env_create_fails" "rand_src env_create_fails = rand_src env_ok"
  "\<not> create_fails env_write_fails" "write_fails env_write_fails"
  "rand_src env_write_fails = rand_src env_ok"
  by (simp_all add: env_ok_def env_create_fails_def env_write_fails_def)

lemma fmt_examples:
  "fmt_d 0 = ''0''" "fmt_d 5000 = ''5000''" "fmt_d 6000 = ''6000''" "fmt_d 4900 = ''4900''"
  "fmt_d 1100 = ''1100''" "fmt_d 1000 = ''1000''" "fmt_d 100 = ''100''" "fmt_d 99 = ''99''"
  "fmt_d (- 1) = ''-1''"
  "fmt_d 9223372036854775808 = ''-9223372036854775808''"
  by (simp_all add: fmt_d_def fmt_int_def digits_of.simps allowedChars_def)

lemma first_deposit_k1:
  "Deposit env_ok fresh 5000 ''k1'' = (Return (''D3074185296'', None), after_k1)"
  by (simp add: Deposit_def fresh_eq after_k1_def save_def gen_ok_D env_flags fmt_examples Let_def)

lemma then_withdraw_100:
  "Withdraw env_ok after_k1 100 '''' = (Return (''W3074185296'', None), later)"
  by (simp add: Withdraw_def after_k1_def later_def save_def gen_ok_W env_flags fmt_examples Let_def)

lemma unmarshal_examples:
  "Unmarshal_int ''1000'' 0 = Some 1000"
  "Unmarshal_int ''-5'' 0 = Some (- 5)"
  "Unmarshal_int ''abc'' 0 = None"
  by code_simp+

lemma literal_example: "json_int_literal (trim_json ''1000'') = Some 1000"
  by code_simp

lemma dec_value_max: "dec_value ''9223372036854775807'' = 9223372036854775807"
  by (simp add: dec_value_def digit_val_def allowedChars_def)

lemma unmarshal_max: "Unmarshal_int ''9223372036854775807'' 0 = Some 9223372036854775807"
  by (simp add: Unmarshal_int_def trim_json_def json_space_def json_int_literal_def is_digit_def
      allowedChars_def dec_value_max MinInt_def MaxInt_def)

lemma full_from_file:
  "full = (NewBank ''Tom'' (Contents ''9223372036854775807''), Contents ''9223372036854775807'')"
  by (simp add: full_def NewBank_parsed [OF unmarshal_max])

lemma full_deposit:
  "Deposit env_ok full 1 '''' =
     (Return (''D3074185296'', None),
      (\<lparr>name = ''Tom'', balance = 9223372036854775808, requests = ['''' \<mapsto> ''D3074185296'']\<rparr>,
       Contents ''-9223372036854775808''))"
  by (simp add: Deposit_def full_def save_def gen_ok_D env_flags fmt_examples Let_def)

lemma deposit_1100:
  "Deposit env_ok fresh 1100 '''' = (Return (''D3074185296'', None), funded)"
  by (simp add: Deposit_def fresh_eq funded_def save_def gen_ok_D env_flags fmt_examples Let_def)

lemma withdraw_100:
  "Withdraw env_ok funded 100 '''' = (Return (''W3074185296'', None), spent)"
  by (simp add: Withdraw_def funded_def spent_def save_def gen_ok_W env_flags fmt_examples Let_def)

lemma atoi_example: "Atoi ''5000'' = Some 5000"
  by code_simp

section \<open>Invalid amounts and insufficient funds\<close>

text \<open>
  C5. For every amount below 1 and every idempotency key, \<open>Deposit\<close> and \<open>Withdraw\<close>
  both return the empty transaction ID together with an "Invalid amount" error, and the
  bank (balance and idempotency cache) and the data file stay as they were.
\<close>

theorem invalid_amount_rejected:
  assumes "sint amount < 1"
  shows "Deposit e s amount k = (Return ('''', Some (''Invalid amount - '' @ fmt_d amount)), s)
       \<and> Withdraw e s amount k = (Return ('''', Some (''Invalid amount: '' @ fmt_d amount)), s)"
  using assms by (simp add: Deposit_def Withdraw_def)

theorem invalid_amount_rejected_witness:
  "sint (0 :: go_int) < 1
   \<and> Deposit env_ok after_k1 0 ''k1'' = (Return ('''', Some ''Invalid amount - 0''), after_k1)
   \<and> Withdraw env_ok after_k1 0 ''k1'' = (Return ('''', Some ''Invalid amount: 0''), after_k1)"
proof -
  have h: "sint (0 :: go_int) < 1" by simp
  show ?thesis
    using h invalid_amount_rejected [OF h, of env_ok after_k1 "''k1''"]
    by (simp add: fmt_examples)
qed

text \<open>
  C3. For every amount of at least 1 that exceeds the balance, \<open>Withdraw\<close> returns the
  empty transaction ID and the "insufficient funds" error, whose message carries the
  requested amount and the balance; the bank and the data file stay as they were. Nothing
  is assumed about the idempotency cache: the call fails in the same way when the key
  is already recorded there, since the comparison comes before the look-up.
\<close>

theorem insufficient_funds_rejected:
  assumes "1 \<le> sint amount" and "sint (balance (fst s)) < sint amount"
  shows "Withdraw e s amount k =
           (Return ('''', Some (''insufficient funds: withdrawal amount $'' @ fmt_d amount
                                @ '' exceeds balance $'' @ fmt_d (balance (fst s)))), s)"
  using assms by (simp add: Withdraw_def)

theorem insufficient_funds_rejected_witness:
  "1 \<le> sint (6000 :: go_int) \<and> sint (balance (fst after_k1)) < sint (6000 :: go_int)
   \<and> requests (fst after_k1) ''k1'' = Some ''D3074185296''
   \<and> Withdraw env_ok after_k1 6000 ''k1'' =
       (Return ('''', Some ''insufficient funds: withdrawal amount $6000 exceeds balance $5000''),
        after_k1)"
proof -
  have h1: "1 \<le> sint (6000 :: go_int)" by simp
  have h2: "sint (balance (fst after_k1)) < sint (6000 :: go_int)" by (simp add: after_k1_def)
  have b: "balance (fst after_k1) = 5000" by (simp add: after_k1_def)
  have c: "requests (fst after_k1) ''k1'' = Some ''D3074185296''" by (simp add: after_k1_def)
  show ?thesis
    using h1 h2 c insufficient_funds_rejected [OF h1 h2, of env_ok "''k1''"]
    by (simp add: fmt_examples b)
qed

section \<open>Idempotency keys\<close>

text \<open>
  C1, as the code has it. Let a call of \<open>Deposit\<close> or \<open>Withdraw\<close> with a non-empty key
  return the transaction ID \<open>t\<close> without error, and let any run of further calls follow.
  Then a call with that key and an amount of at least 1 returns \<open>t\<close> and leaves the bank
  and the data file as they are: every such \<open>Deposit\<close>, and every such \<open>Withdraw\<close>
  whose amount does not exceed the balance. The cache is one map for both operations, so
  the first call and the later one may be of different kinds.
\<close>

theorem replay_returns_recorded_id:
  assumes "key_of c0 \<noteq> ''''"
    and "perform e0 s0 c0 = (Return (t, None), s1)"
    and "run_calls cs s1 = Some s2"
    and "1 \<le> sint amount"
  shows "Deposit e s2 amount (key_of c0) = (Return (t, None), s2)
       \<and> (sint amount \<le> sint (balance (fst s2)) \<longrightarrow>
            Withdraw e s2 amount (key_of c0) = (Return (t, None), s2))"
proof -
  have "requests (fst s1) (key_of c0) = Some t"
    using perform_success_records [OF assms(1,2)] .
  then have "requests (fst s2) (key_of c0) = Some t"
    using run_calls_keeps_entry [OF assms(1) _ assms(3)] by blast
  then show ?thesis
    using assms(1,4) by (simp add: Deposit_cached Withdraw_cached)
qed

theorem replay_returns_recorded_id_witness:
  "key_of (DepositCall 5000 ''k1'') \<noteq> ''''
   \<and> perform env_ok fresh (DepositCall 5000 ''k1'') = (Return (''D3074185296'', None), after_k1)
   \<and> run_calls [(env_ok, WithdrawCall 100 '''')] after_k1 = Some later
   \<and> 1 \<le> sint (100 :: go_int)
   \<and> sint (100 :: go_int) \<le> sint (balance (fst later))
   \<and> Deposit env_ok later 100 ''k1'' = (Return (''D3074185296'', None), later)
   \<and> Withdraw env_ok later 100 ''k1'' = (Return (''D3074185296'', None), later)"
proof -
  have h1: "key_of (DepositCall 5000 ''k1'') \<noteq> ''''" by simp
  have h2: "perform env_ok fresh (DepositCall 5000 ''k1'') = (Return (''D3074185296'', None), after_k1)"
    by (simp add: first_deposit_k1)
  have h3: "run_calls [(env_ok, WithdrawCall 100 '''')] after_k1 = Some later"
    by (simp add: then_withdraw_100)
  have h4: "1 \<le> sint (100 :: go_int)" by simp
  have h5: "sint (100 :: go_int) \<le> sint (balance (fst later))" by (simp add: later_def)
  show ?thesis
    using h1 h2 h3 h4 h5 replay_returns_recorded_id [OF h1 h2 h3 h4, of env_ok]
    by simp
qed

text \<open>C1 as it is written fails: after \<open>Deposit(5000, "k1")\<close> has returned its
  transaction ID, \<open>Withdraw(6000, "k1")\<close> and \<open>Deposit(0, "k1")\<close> return an error and
  not that ID.\<close>

theorem replay_counterexample:
  "perform env_ok fresh (DepositCall 5000 ''k1'') = (Return (''D3074185296'', None), after_k1)
   \<and> fst (perform env_ok after_k1 (WithdrawCall 6000 ''k1'')) \<noteq> Return (''D3074185296'', None)
   \<and> fst (perform env_ok after_k1 (DepositCall 0 ''k1'')) \<noteq> Return (''D3074185296'', None)"
proof -
  have "sint (balance (fst after_k1)) < sint (6000 :: go_int)" by (simp add: after_k1_def)
  then show ?thesis
    by (simp add: first_deposit_k1 Withdraw_insufficient Deposit_invalid)
qed

text \<open>
  C10, as the code has it. When the non-empty key of a call is in the cache and the
  amount is at least 1 (and, for \<open>Withdraw\<close>, not above the balance), the call returns
  the cached transaction ID, and the balance, the cache and the data file are exactly as
  before, in every environment: also in one where \<open>os.Create\<close> would have failed, for
  \<open>save\<close> is not reached.
\<close>

theorem cached_key_changes_nothing:
  assumes "k \<noteq> ''''" and "requests (fst s) k = Some t" and "1 \<le> sint amount"
  shows "Deposit e s amount k = (Return (t, None), s)
       \<and> (sint amount \<le> sint (balance (fst s)) \<longrightarrow> Withdraw e s amount k = (Return (t, None), s))"
  using assms by (simp add: Deposit_cached Withdraw_cached)

theorem cached_key_changes_nothing_witness:
  "''k1'' \<noteq> '''' \<and> requests (fst after_k1) ''k1'' = Some ''D3074185296''
   \<and> 1 \<le> sint (100 :: go_int) \<and> sint (100 :: go_int) \<le> sint (balance (fst after_k1))
   \<and> Deposit env_create_fails after_k1 100 ''k1'' = (Return (''D3074185296'', None), after_k1)
   \<and> Withdraw env_create_fails after_k1 100 ''k1'' = (Return (''D3074185296'', None), after_k1)"
proof -
  have h1: "''k1'' \<noteq> ''''" by simp
  have h2: "requests (fst after_k1) ''k1'' = Some ''D3074185296''" by (simp add: after_k1_def)
  have h3: "1 \<le> sint (100 :: go_int)" by simp
  have h4: "sint (100 :: go_int) \<le> sint (balance (fst after_k1))" by (simp add: after_k1_def)
  show ?thesis
    using h1 h2 h3 h4 cached_key_changes_nothing [OF h1 h2 h3, of env_create_fails]
    by simp
qed

text \<open>C10 as it is written fails for an amount below 1: with the key in the cache,
  the call returns the "Invalid amount" error and no transaction ID.\<close>

theorem cached_key_counterexample:
  "requests (fst after_k1) ''k1'' = Some ''D3074185296''
   \<and> Deposit env_ok after_k1 0 ''k1'' = (Return ('''', Some ''Invalid amount - 0''), after_k1)
   \<and> Withdraw env_ok after_k1 0 ''k1'' = (Return ('''', Some ''Invalid amount: 0''), after_k1)"
  by (simp add: Deposit_invalid Withdraw_invalid fmt_examples) (simp add: after_k1_def)

section \<open>The effect of a deposit and of a withdrawal\<close>

text \<open>
  C4, as the code has it. With the empty key and an amount of at least 1: a \<open>Deposit\<close>
  that returns without error has raised the balance by exactly the amount, provided
  the sum does not exceed the largest \<open>int\<close>, and its transaction ID is the letter D and
  10 decimal digits; a \<open>Withdraw\<close> of at most the balance that returns without error has
  lowered the balance by exactly the amount, and its ID is the letter W and 10 decimal
  digits.
\<close>

theorem deposit_withdraw_exact:
  assumes "1 \<le> sint amount"
  shows "(Deposit e s amount '''' = (Return (t, None), s')
            \<and> sint (balance (fst s)) + sint amount \<le> MaxInt \<longrightarrow>
          sint (balance (fst s')) = sint (balance (fst s)) + sint amount \<and> txid_format CHR ''D'' t)
       \<and> (Withdraw e s amount '''' = (Return (t, None), s')
            \<and> sint amount \<le> sint (balance (fst s)) \<longrightarrow>
          sint (balance (fst s')) = sint (balance (fst s)) - sint amount \<and> txid_format CHR ''W'' t)"
proof (intro conjI impI)
  assume h: "Deposit e s amount '''' = (Return (t, None), s') \<and> sint (balance (fst s)) + sint amount \<le> MaxInt"
  have lo: "MinInt \<le> sint (balance (fst s)) + sint amount"
    using sint_bounds(1) [of "balance (fst s)"] assms by simp
  from h Deposit_new [OF assms, of "''''" s e]
  have t: "t = generateTransactionID (rand_src e) ''D'' 10"
    and b: "balance (fst s') = balance (fst s) + amount"
    by (auto simp: Let_def split: if_splits)
  show "sint (balance (fst s')) = sint (balance (fst s)) + sint amount"
    using b sint_add_exact [OF lo] h by simp
  show "txid_format CHR ''D'' t"
    unfolding t by (rule txid_format_generate)
next
  assume h: "Withdraw e s amount '''' = (Return (t, None), s') \<and> sint amount \<le> sint (balance (fst s))"
  then have le: "sint amount \<le> sint (balance (fst s))" by simp
  have lo: "MinInt \<le> sint (balance (fst s)) - sint amount"
    using le by (simp add: MinInt_def)
  have hi: "sint (balance (fst s)) - sint amount \<le> MaxInt"
    using sint_bounds(2) [of "balance (fst s)"] assms by simp
  from h Withdraw_new [OF assms le, of "''''" e]
  have t: "t = generateTransactionID (rand_src e) ''W'' 10"
    and b: "balance (fst s') = balance (fst s) - amount"
    by (auto simp: Let_def split: if_splits)
  show "sint (balance (fst s')) = sint (balance (fst s)) - sint amount"
    using b sint_sub_exact [OF lo hi] by simp
  show "txid_format CHR ''W'' t"
    unfolding t by (rule txid_format_generate)
qed

theorem deposit_withdraw_exact_witness:
  "1 \<le> sint (1100 :: go_int)
   \<and> Deposit env_ok fresh 1100 '''' = (Return (''D3074185296'', None), funded)
   \<and> sint (balance (fst fresh)) + sint (1100 :: go_int) \<le> MaxInt
   \<and> sint (balance (fst funded)) = sint (balance (fst fresh)) + sint (1100 :: go_int)
   \<and> txid_format CHR ''D'' ''D3074185296''
   \<and> 1 \<le> sint (100 :: go_int)
   \<and> Withdraw env_ok funded 100 '''' = (Return (''W3074185296'', None), spent)
   \<and> sint (100 :: go_int) \<le> sint (balance (fst funded))
   \<and> sint (balance (fst spent)) = sint (balance (fst funded)) - sint (100 :: go_int)
   \<and> txid_format CHR ''W'' ''W3074185296''"
proof -
  have a1: "1 \<le> sint (1100 :: go_int)" by simp
  have d: "Deposit env_ok fresh 1100 '''' = (Return (''D3074185296'', None), funded)
           \<and> sint (balance (fst fresh)) + sint (1100 :: go_int) \<le> MaxInt"
    by (simp add: deposit_1100) (simp add: fresh_eq MaxInt_def)
  have a2: "1 \<le> sint (100 :: go_int)" by simp
  have w: "Withdraw env_ok funded 100 '''' = (Return (''W3074185296'', None), spent)
           \<and> sint (100 :: go_int) \<le> sint (balance (fst funded))"
    by (simp add: withdraw_100) (simp add: funded_def)
  show ?thesis
    using a1 d a2 w
      deposit_withdraw_exact [OF a1, of env_ok fresh "''D3074185296''" funded]
      deposit_withdraw_exact [OF a2, of env_ok funded "''W3074185296''" spent]
    by blast
qed

text \<open>C4 as it is written fails where the addition overflows: \<open>Deposit(1, "")\<close> on the
  largest balance returns a transaction ID, and the balance has not grown by 1.\<close>

theorem deposit_overflow_counterexample:
  "1 \<le> sint (1 :: go_int)
   \<and> full = (NewBank ''Tom'' (Contents ''9223372036854775807''), Contents ''9223372036854775807'')
   \<and> fst (Deposit env_ok full 1 '''') = Return (''D3074185296'', None)
   \<and> sint (balance (fst full)) = 9223372036854775807
   \<and> sint (balance (fst (snd (Deposit env_ok full 1 '''')))) = - 9223372036854775808"
proof -
  have "sint (balance (fst full)) = 9223372036854775807"
    by (simp add: full_def)
  then show ?thesis
    using full_from_file by (simp add: full_deposit)
qed

section \<open>The sign of the balance\<close>

text \<open>
  C2, as the code has it. After \<open>NewBank\<close> the balance is zero when there is no data
  file; when the data file holds (between optional white space) a JSON integer \<open>i\<close>
  from 0 up to the largest \<open>int\<close>, the balance is \<open>i\<close> and so non-negative. A
  non-negative balance is still non-negative after every call of \<open>Withdraw\<close>, whatever
  its outcome, and after every call of \<open>Deposit\<close> for which the balance plus the amount
  does not exceed the largest \<open>int\<close>.
\<close>

theorem balance_stays_non_negative:
  "balance (NewBank nm Missing) = 0
   \<and> (json_int_literal (trim_json db) = Some i \<and> 0 \<le> i \<and> i \<le> MaxInt \<longrightarrow>
        sint (balance (NewBank nm (Contents db))) = i
        \<and> 0 \<le> sint (balance (NewBank nm (Contents db))))
   \<and> (0 \<le> sint (balance (fst s)) \<longrightarrow> 0 \<le> sint (balance (fst (snd (Withdraw e s amount k)))))
   \<and> (0 \<le> sint (balance (fst s)) \<and> sint (balance (fst s)) + sint amount \<le> MaxInt \<longrightarrow>
        0 \<le> sint (balance (fst (snd (Deposit e s amount k)))))"
proof (intro conjI impI)
  show "balance (NewBank nm Missing) = 0"
    by (simp add: NewBank_no_file)
next
  assume h: "json_int_literal (trim_json db) = Some i \<and> 0 \<le> i \<and> i \<le> MaxInt"
  then have lo: "MinInt \<le> i" by (simp add: MinInt_def)
  show eq: "sint (balance (NewBank nm (Contents db))) = i"
    using h lo by (simp add: NewBank_json_integer sint_word_of_int_exact)
  show "0 \<le> sint (balance (NewBank nm (Contents db)))"
    using eq h by simp
next
  assume nn: "0 \<le> sint (balance (fst s))"
  show "0 \<le> sint (balance (fst (snd (Withdraw e s amount k))))"
  proof (cases "1 \<le> sint amount \<and> sint amount \<le> sint (balance (fst s))
                 \<and> (k = '''' \<or> requests (fst s) k = None)")
    case True
    then have lo: "MinInt \<le> sint (balance (fst s)) - sint amount"
      by (simp add: MinInt_def)
    have hi: "sint (balance (fst s)) - sint amount \<le> MaxInt"
      using sint_bounds(2) [of "balance (fst s)"] True by simp
    have "sint (balance (fst s) - amount) = sint (balance (fst s)) - sint amount"
      using sint_sub_exact [OF lo hi] .
    moreover have "balance (fst (snd (Withdraw e s amount k))) = balance (fst s) - amount"
      unfolding Withdraw_balance using True by (rule if_P)
    ultimately show ?thesis using True by simp
  next
    case False
    then have "balance (fst (snd (Withdraw e s amount k))) = balance (fst s)"
      unfolding Withdraw_balance by (rule if_not_P)
    then show ?thesis using nn by simp
  qed
next
  assume h: "0 \<le> sint (balance (fst s)) \<and> sint (balance (fst s)) + sint amount \<le> MaxInt"
  show "0 \<le> sint (balance (fst (snd (Deposit e s amount k))))"
  proof (cases "1 \<le> sint amount \<and> (k = '''' \<or> requests (fst s) k = None)")
    case True
    then have lo: "MinInt \<le> sint (balance (fst s)) + sint amount"
      using h by (simp add: MinInt_def)
    have "sint (balance (fst s) + amount) = sint (balance (fst s)) + sint amount"
      using sint_add_exact [OF lo] h by simp
    moreover have "balance (fst (snd (Deposit e s amount k))) = balance (fst s) + amount"
      unfolding Deposit_balance using True by (rule if_P)
    ultimately show ?thesis using True h by simp
  next
    case False
    then have "balance (fst (snd (Deposit e s amount k))) = balance (fst s)"
      unfolding Deposit_balance by (rule if_not_P)
    then show ?thesis using h by simp
  qed
qed

theorem balance_stays_non_negative_witness:
  "balance (NewBank ''Tom'' Missing) = 0
   \<and> json_int_literal (trim_json ''1000'') = Some 1000 \<and> (0 :: int) \<le> 1000 \<and> 1000 \<le> MaxInt
   \<and> sint (balance (NewBank ''Tom'' (Contents ''1000''))) = 1000
   \<and> 0 \<le> sint (balance (NewBank ''Tom'' (Contents ''1000'')))
   \<and> 0 \<le> sint (balance (fst after_k1))
   \<and> sint (balance (fst after_k1)) + sint (100 :: go_int) \<le> MaxInt
   \<and> 0 \<le> sint (balance (fst (snd (Withdraw env_ok after_k1 100 ''''))))
   \<and> 0 \<le> sint (balance (fst (snd (Deposit env_ok after_k1 100 ''''))))"
proof -
  have h1: "json_int_literal (trim_json ''1000'') = Some 1000 \<and> (0 :: int) \<le> 1000 \<and> 1000 \<le> MaxInt"
    by (simp add: literal_example MaxInt_def)
  have h2: "0 \<le> sint (balance (fst after_k1))"
    by (simp add: after_k1_def)
  have h3: "sint (balance (fst after_k1)) + sint (100 :: go_int) \<le> MaxInt"
    by (simp add: after_k1_def MaxInt_def)
  show ?thesis
    using h1 h2 h3
      balance_stays_non_negative [of "''Tom''" "''1000''" 1000 after_k1 env_ok 100 "''''"]
    by blast
qed

text \<open>C2 as it is written fails: a data file that holds \<open>-5\<close> is loaded as the
  balance \<open>-5\<close>, and \<open>Deposit(1, "")\<close> on the largest balance wraps around to the
  smallest \<open>int\<close>.\<close>

theorem balance_negative_counterexample:
  "sint (balance (NewBank ''Tom'' (Contents ''-5''))) = - 5
   \<and> full = (NewBank ''Tom'' (Contents ''9223372036854775807''), Contents ''9223372036854775807'')
   \<and> sint (balance (fst full)) = 9223372036854775807
   \<and> fst (Deposit env_ok full 1 '''') = Return (''D3074185296'', None)
   \<and> sint (balance (fst (snd (Deposit env_ok full 1 '''')))) = - 9223372036854775808"
proof -
  have "sint (balance (NewBank ''Tom'' (Contents ''-5''))) = - 5"
    by (simp add: NewBank_parsed [OF unmarshal_examples(2)])
  moreover have "sint (balance (fst full)) = 9223372036854775807"
    by (simp add: full_def)
  ultimately show ?thesis
    using full_from_file by (simp add: full_deposit)
qed

section \<open>Insufficient funds across the network\<close>

text \<open>
  C8. Let a withdraw request carry an amount that parses to at least 1 and exceeds the
  balance, so that \<open>Withdraw\<close> fails with the "insufficient funds" error. Then the
  service answers with status 400 and the body \<open>ERROR: INSUFFICIENT_FUNDS: \<close>, the
  detail and a line feed, and leaves the bank as it was; the body contains the marker
  \<open>INSUFFICIENT_FUNDS:\<close>; and from that status and body the client returns an
  \<open>InsufficientFundsError\<close> whose message is exactly the detail the service wrote after
  the marker.
\<close>

theorem insufficient_funds_over_the_wire:
  assumes "amount_param r = Some a" and "Atoi a = Some amount"
    and "1 \<le> sint amount" and "sint (balance (fst s)) < sint amount"
  shows "withdrawHandler e s r =
           (Return \<lparr>status = 400,
                    body = ''ERROR: INSUFFICIENT_FUNDS: '' @
                           (''withdrawal amount $'' @ fmt_d amount @ '' exceeds balance $''
                            @ fmt_d (balance (fst s))) @ [CHR 0x0A]\<rparr>, s)
       \<and> Contains (''ERROR: INSUFFICIENT_FUNDS: '' @
                   (''withdrawal amount $'' @ fmt_d amount @ '' exceeds balance $''
                    @ fmt_d (balance (fst s))) @ [CHR 0x0A]) ''INSUFFICIENT_FUNDS:''
       \<and> callService (Reply 400 (''ERROR: INSUFFICIENT_FUNDS: '' @
                   (''withdrawal amount $'' @ fmt_d amount @ '' exceeds balance $''
                    @ fmt_d (balance (fst s))) @ [CHR 0x0A]))
           = Return ('''', Some (InsufficientFundsError
                   (''withdrawal amount $'' @ fmt_d amount @ '' exceeds balance $''
                    @ fmt_d (balance (fst s)))))"
proof -
  let ?d = "''withdrawal amount $'' @ fmt_d amount @ '' exceeds balance $'' @ fmt_d (balance (fst s))"
  have one_line: "CHR 0x0A \<notin> set ?d"
    using fmt_d_one_line [of amount] fmt_d_one_line [of "balance (fst s)"] by simp
  have w: "Withdraw e s amount k = (Return ('''', Some (''insufficient funds: '' @ ?d)), s)" for k
    using Withdraw_insufficient [OF assms(3,4), of e k] by simp
  have h: "withdrawHandler e s r =
             (Return (http_Error (''ERROR: INSUFFICIENT_FUNDS: '' @ ?d) 400), s)"
    unfolding withdrawHandler_def
    using assms(1,2,3) service_contains [of ?d] service_submatch [OF one_line]
    by (simp add: w del: append.simps)
  have "withdrawHandler e s r =
          (Return \<lparr>status = 400, body = ''ERROR: INSUFFICIENT_FUNDS: '' @ ?d @ [CHR 0x0A]\<rparr>, s)"
    using h by (simp add: http_Error_def)
  moreover have "Contains (''ERROR: INSUFFICIENT_FUNDS: '' @ ?d @ [CHR 0x0A]) ''INSUFFICIENT_FUNDS:''"
    by (rule client_contains(2))
  moreover have "callService (Reply 400 (''ERROR: INSUFFICIENT_FUNDS: '' @ ?d @ [CHR 0x0A]))
                 = Return ('''', Some (InsufficientFundsError ?d))"
    by (rule callService_insufficient [OF one_line])
  ultimately show ?thesis by blast
qed

theorem insufficient_funds_over_the_wire_witness:
  "amount_param \<lparr>amount_param = Some ''5000'', key_param = None\<rparr> = Some ''5000''
   \<and> Atoi ''5000'' = Some 5000
   \<and> 1 \<le> sint (5000 :: go_int)
   \<and> sint (balance (fst spent)) < sint (5000 :: go_int)
   \<and> withdrawHandler env_ok spent \<lparr>amount_param = Some ''5000'', key_param = None\<rparr> =
        (Return \<lparr>status = 400,
                 body = ''ERROR: INSUFFICIENT_FUNDS: withdrawal amount $5000 exceeds balance $1000''
                        @ [CHR 0x0A]\<rparr>, spent)
   \<and> callService (Reply 400 (''ERROR: INSUFFICIENT_FUNDS: withdrawal amount $5000 exceeds balance $1000''
                               @ [CHR 0x0A]))
       = Return ('''', Some (InsufficientFundsError ''withdrawal amount $5000 exceeds balance $1000''))"
proof -
  have h1: "amount_param \<lparr>amount_param = Some ''5000'', key_param = None\<rparr> = Some ''5000''"
    by simp
  have h2: "Atoi ''5000'' = Some 5000"
    by (rule atoi_example)
  have h3: "1 \<le> sint (5000 :: go_int)"
    by simp
  have h4: "sint (balance (fst spent)) < sint (5000 :: go_int)"
    by (simp add: spent_def)
  have b: "balance (fst spent) = 1000"
    by (simp add: spent_def)
  show ?thesis
    using h1 h2 h3 h4 insufficient_funds_over_the_wire [OF h1 h2 h3 h4, of env_ok]
    by (simp add: fmt_examples b)
qed

section \<open>Loading and saving\<close>

text \<open>
  C6 at a data file that is not JSON. \<open>load\<close> returns \<open>-1\<close> and an error;
  \<open>NewBank\<close> goes on and returns a bank whose balance is that \<open>-1\<close>, and the bank
  takes a deposit of 100, which leaves 99. The construction is not stopped.
\<close>

theorem corrupt_data_file_not_fatal:
  "load \<lparr>name = ''Tom'', balance = 0, requests = Map.empty\<rparr> (Contents ''abc'')
     = (- 1, Some UnmarshalError)
   \<and> NewBank ''Tom'' (Contents ''abc'') = \<lparr>name = ''Tom'', balance = - 1, requests = Map.empty\<rparr>
   \<and> sint (balance (NewBank ''Tom'' (Contents ''abc''))) = - 1
   \<and> Deposit env_ok (NewBank ''Tom'' (Contents ''abc''), Contents ''abc'') 100 '''' =
       (Return (''D3074185296'', None),
        (\<lparr>name = ''Tom'', balance = 99, requests = ['''' \<mapsto> ''D3074185296'']\<rparr>, Contents ''99''))"
proof -
  have n: "NewBank ''Tom'' (Contents ''abc'') = \<lparr>name = ''Tom'', balance = - 1, requests = Map.empty\<rparr>"
    by (rule NewBank_load_error) (simp add: unmarshal_examples)
  show ?thesis
    by (simp add: n load_def unmarshal_examples)
       (simp add: Deposit_def save_def gen_ok_D env_flags fmt_examples Let_def)
qed

text \<open>
  C7 at a failing write. When \<open>file.Write\<close> fails, \<open>Deposit\<close> returns the transaction
  ID and no error, with the new balance in memory and an empty data file; when
  \<open>os.Create\<close> fails, the process is terminated and nothing is returned. In neither
  case does the caller receive an error.
\<close>

theorem failed_save_not_reported:
  "Deposit env_write_fails fresh 100 '''' =
     (Return (''D3074185296'', None),
      (\<lparr>name = ''Tom'', balance = 100, requests = ['''' \<mapsto> ''D3074185296'']\<rparr>, Contents ''''))
   \<and> Deposit env_create_fails fresh 100 '''' =
     (Fatal, (\<lparr>name = ''Tom'', balance = 100, requests = ['''' \<mapsto> ''D3074185296'']\<rparr>, Missing))"
  by (simp add: Deposit_def fresh_eq save_def gen_ok_D env_flags Let_def)


end
